theory Spec2Isabelle
  imports Complex_Main "HOL-Library.Word"
begin

section \<open>JavaScript values\<close>

text \<open>
  This theory models the handler of \<^verbatim>\<open>POST /api/incoming-email\<close> in
  \<^verbatim>\<open>src/api/index.ts\<close>, the one variant of the three handlers of the repository that
  reads attachments; line numbers are those of that file.

  The handler works on loosely typed data: the
  \<^verbatim>\<open>attachments\<close> field of the request body is whatever the body parser produced, and
  after \<^verbatim>\<open>JSON.parse\<close> it is any JSON value. Such values are modelled by \<open>jsval\<close>.
  An object is the list of its own properties, in the order \<^verbatim>\<open>JSON.parse\<close> created them.
\<close>

datatype jsval =
    JUndefined
  | JNull
  | JBool bool
  | JNum real
  | JStr string
  | JArr "jsval list"
  | JObj "(string \<times> jsval) list"

text \<open>
  What a \<^verbatim>\<open>throw\<close> or a rejected promise carries. \<open>Error\<close>, \<open>TypeError\<close> and
  \<open>SyntaxError\<close> are instances of \<^verbatim>\<open>Error\<close> with their message; \<open>NonError\<close> is any
  thrown value that is not an instance of \<^verbatim>\<open>Error\<close>.
\<close>

datatype thrown =
    Error string
  | TypeError string
  | SyntaxError string
  | NonError

text \<open>\<^verbatim>\<open>error instanceof Error ? error.message : "An unknown error occurred"\<close> (lines 158-159).\<close>

fun error_message :: "thrown \<Rightarrow> string" where
  "error_message (Error m) = m"
| "error_message (TypeError m) = m"
| "error_message (SyntaxError m) = m"
| "error_message NonError = ''An unknown error occurred''"

text \<open>Truthiness of a value, as \<^verbatim>\<open>&&\<close> and \<^verbatim>\<open>!\<close> test it.\<close>

fun truthy :: "jsval \<Rightarrow> bool" where
  "truthy JUndefined = False"
| "truthy JNull = False"
| "truthy (JBool b) = b"
| "truthy (JNum r) = (r \<noteq> 0)"
| "truthy (JStr s) = (s \<noteq> [])"
| "truthy (JArr xs) = True"
| "truthy (JObj kvs) = True"

fun typeof :: "jsval \<Rightarrow> string" where
  "typeof JUndefined = ''undefined''"
| "typeof JNull = ''object''"
| "typeof (JBool b) = ''boolean''"
| "typeof (JNum r) = ''number''"
| "typeof (JStr s) = ''string''"
| "typeof (JArr xs) = ''object''"
| "typeof (JObj kvs) = ''object''"

text \<open>
  The four scalar fields of the body are declared \<^verbatim>\<open>string\<close> in \<^verbatim>\<open>MailgunWebhookBody\<close>;
  at run time a field may also be absent, which reads as \<^verbatim>\<open>undefined\<close>. They are
  modelled as \<open>string option\<close>, \<open>None\<close> being \<^verbatim>\<open>undefined\<close> (a completion's
  \<^verbatim>\<open>content\<close> likewise, \<open>None\<close> being \<^verbatim>\<open>undefined\<close> or \<^verbatim>\<open>null\<close>).
\<close>

fun truthy_field :: "string option \<Rightarrow> bool" where
  "truthy_field None = False"
| "truthy_field (Some s) = (s \<noteq> [])"

text \<open>A field interpolated in a template literal: \<^verbatim>\<open>`${x}`\<close>.\<close>

fun template :: "string option \<Rightarrow> string" where
  "template None = ''undefined''"
| "template (Some s) = s"

definition cannot_read :: "string \<Rightarrow> string \<Rightarrow> string" where
  "cannot_read what k =
     ''Cannot read properties of '' @ what @ '' (reading '' @ [CHR 0x27] @ k @ [CHR 0x27] @ '')''"

text \<open>
  Reading the property \<open>k\<close> of a value, for a name \<open>k\<close> that is neither an array index
  nor a member of a built-in prototype other than \<^verbatim>\<open>length\<close>: the handler reads
  \<^verbatim>\<open>length\<close>, \<^verbatim>\<open>content-type\<close> and \<^verbatim>\<open>url\<close> only. Reading a property of
  \<^verbatim>\<open>undefined\<close> or \<^verbatim>\<open>null\<close> throws a \<^verbatim>\<open>TypeError\<close>.
\<close>

fun get_prop :: "jsval \<Rightarrow> string \<Rightarrow> thrown + jsval" where
  "get_prop JUndefined k = Inl (TypeError (cannot_read ''undefined'' k))"
| "get_prop JNull k = Inl (TypeError (cannot_read ''null'' k))"
| "get_prop (JBool b) k = Inr JUndefined"
| "get_prop (JNum r) k = Inr JUndefined"
| "get_prop (JStr s) k = Inr (if k = ''length'' then JNum (of_nat (length s)) else JUndefined)"
| "get_prop (JArr xs) k = Inr (if k = ''length'' then JNum (of_nat (length xs)) else JUndefined)"
| "get_prop (JObj kvs) k = Inr (case map_of kvs k of None \<Rightarrow> JUndefined | Some v \<Rightarrow> v)"

text \<open>
  \<^verbatim>\<open>for (const x of v)\<close>: the values the loop visits. Arrays and strings are iterable;
  no other JSON value is.
\<close>

fun iterate :: "jsval \<Rightarrow> thrown + jsval list" where
  "iterate (JArr xs) = Inr xs"
| "iterate (JStr s) = Inr (map (\<lambda>c. JStr [c]) s)"
| "iterate v = Inl (TypeError ''attachments is not iterable'')"

text \<open>\<^verbatim>\<open>s.startsWith(p)\<close> on strings.\<close>

definition startsWith :: "string \<Rightarrow> string \<Rightarrow> bool" where
  "startsWith s p = (take (length p) s = p)"

text \<open>A number in a template literal; HTTP status codes are natural numbers.\<close>

fun string_of_nat :: "nat \<Rightarrow> string" where
  "string_of_nat n =
     (if n < 10 then [''0123456789'' ! n]
      else string_of_nat (n div 10) @ [''0123456789'' ! (n mod 10)])"

declare string_of_nat.simps [simp del]

section \<open>Data of the handler\<close>

text \<open>\<^verbatim>\<open>interface MailgunWebhookBody\<close> (lines 44-56), as the handler reads it (lines 76-83).\<close>

record MailgunWebhookBody =
  sender :: "string option"
  subject :: "string option"
  stripped_text :: "string option"
  Message_Id :: "string option"
  attachments :: jsval

text \<open>\<^verbatim>\<open>type ContentPart\<close> (lines 98-100).\<close>

datatype ContentPart =
    Text string
  | Image_url string

text \<open>The messages of the completion request (lines 89-95, 128-131) and the request (lines 134-138).\<close>

datatype message_param =
    System_message string
  | User_message "ContentPart list"

record request =
  messages :: "message_param list"
  model :: string
  max_tokens :: nat

text \<open>
  What the handler reads of a completion: \<^verbatim>\<open>completion.choices[0]?.message?.content\<close>.
  A choice's \<^verbatim>\<open>message\<close> may be missing, and a message's \<^verbatim>\<open>content\<close> may be
  \<^verbatim>\<open>null\<close>.
\<close>

record chat_message =
  content :: "string option"

record choice =
  message :: "chat_message option"

record completion =
  choices :: "choice list"

text \<open>The object given to \<^verbatim>\<open>mg.messages.create\<close> (lines 146-153).\<close>

record envelope =
  mail_from :: string
  mail_to :: "string option"
  mail_subject :: string
  mail_text :: string
  h_In_Reply_To :: "string option"
  h_References :: "string option"

text \<open>The response of \<^verbatim>\<open>fetch\<close>, as \<^verbatim>\<open>downloadAttachment\<close> reads it.\<close>

type_synonym byte = "8 word"

record fetch_response =
  ok :: bool
  status :: nat
  statusText :: string
  arrayBuffer :: "thrown + byte list"

text \<open>The calls the handler makes to the outside, in the order it makes them.\<close>

datatype event =
    Fetch_call jsval
  | Completion_call request
  | Send_call string envelope

text \<open>
  Everything the handler does not define itself: \<^verbatim>\<open>JSON.parse\<close> (which returns a value
  or throws a \<^verbatim>\<open>SyntaxError\<close> with a message), \<^verbatim>\<open>fetch\<close>, the base64 encoding of a
  buffer, the two provider clients and the two environment variables the handler reads.
  An external call is answered depending on its arguments and on the calls made before it,
  so that the same URL may be answered differently at different times.
\<close>

record world =
  JSON_parse :: "string \<Rightarrow> string + jsval"
  fetch :: "event list \<Rightarrow> jsval \<Rightarrow> thrown + fetch_response"
  toString_base64 :: "byte list \<Rightarrow> string"
  completions_create :: "event list \<Rightarrow> request \<Rightarrow> thrown + completion"
  messages_create :: "event list \<Rightarrow> string \<Rightarrow> envelope \<Rightarrow> thrown option"
  MAILGUN_DOMAIN :: string
  FROM_EMAIL :: string

text \<open>The response sent back to the webhook caller: HTTP status, \<^verbatim>\<open>status\<close>, \<^verbatim>\<open>message\<close>.\<close>

datatype response = Json nat string string

section \<open>The handler\<close>

text \<open>
  \<^verbatim>\<open>downloadAttachment\<close> (lines 58-68), with the message of the error it throws
  (\<^verbatim>\<open>`Failed to download attachment: ${response.status} ${response.statusText}`\<close>).
  The function takes the trace so far and returns it longer by the one \<^verbatim>\<open>fetch\<close> it
  makes; a rejected \<^verbatim>\<open>fetch\<close> or \<^verbatim>\<open>arrayBuffer\<close> is rethrown as it is.
\<close>

definition download_message :: "fetch_response \<Rightarrow> string" where
  "download_message response =
     ''Failed to download attachment: '' @ string_of_nat (status response) @ '' ''
       @ statusText response"

definition downloadAttachment ::
  "world \<Rightarrow> event list \<Rightarrow> jsval \<Rightarrow> (thrown + byte list) \<times> event list" where
  "downloadAttachment w tr url =
     (let tr' = tr @ [Fetch_call url] in
      case fetch w tr url of
        Inl e \<Rightarrow> (Inl e, tr')
      | Inr response \<Rightarrow>
          if \<not> ok response then (Inl (Error (download_message response)), tr')
          else (arrayBuffer response, tr'))"

text \<open>
  Lines 80-83: \<^verbatim>\<open>body.attachments && typeof body.attachments === "string"
  ? JSON.parse(body.attachments) : []\<close>.
\<close>

definition parse_attachments :: "world \<Rightarrow> jsval \<Rightarrow> thrown + jsval" where
  "parse_attachments w a =
     (if truthy a \<and> typeof a = ''string'' then
        (case a of
           JStr s \<Rightarrow> (case JSON_parse w s of Inl m \<Rightarrow> Inl (SyntaxError m) | Inr v \<Rightarrow> Inr v)
         | _ \<Rightarrow> Inr (JArr []))
      else Inr (JArr []))"

text \<open>
  Lines 85-87: \<^verbatim>\<open>if (!strippedText && attachments.length === 0) throw new Error(...)\<close>.
  \<^verbatim>\<open>attachments.length\<close> is read only when the text is falsy.
\<close>

definition no_content_message :: string where
  "no_content_message = ''No email content or attachments found''"

definition check_content :: "string option \<Rightarrow> jsval \<Rightarrow> thrown + unit" where
  "check_content strippedText atts =
     (if \<not> truthy_field strippedText then
        (case get_prop atts ''length'' of
           Inl e \<Rightarrow> Inl e
         | Inr len \<Rightarrow> if len = JNum 0 then Inl (Error no_content_message) else Inr ())
      else Inr ())"

text \<open>
  The loop over the attachments (lines 112-125), on the values still to visit, the content
  parts pushed so far and the trace so far.
  \<^verbatim>\<open>attachment["content-type"].startsWith("image/")\<close> throws a \<^verbatim>\<open>TypeError\<close> unless
  the property is a string: \<^verbatim>\<open>undefined\<close> and \<^verbatim>\<open>null\<close> have no properties, and no
  other JSON value has a callable \<^verbatim>\<open>startsWith\<close>.
\<close>

fun attachment_loop ::
  "world \<Rightarrow> jsval list \<Rightarrow> ContentPart list \<Rightarrow> event list
     \<Rightarrow> (thrown + ContentPart list) \<times> event list" where
  "attachment_loop w [] userContent tr = (Inr userContent, tr)"
| "attachment_loop w (attachment # rest) userContent tr =
     (case get_prop attachment ''content-type'' of
        Inl e \<Rightarrow> (Inl e, tr)
      | Inr JUndefined \<Rightarrow> (Inl (TypeError (cannot_read ''undefined'' ''startsWith'')), tr)
      | Inr JNull \<Rightarrow> (Inl (TypeError (cannot_read ''null'' ''startsWith'')), tr)
      | Inr (JStr contentType) \<Rightarrow>
          if startsWith contentType ''image/'' then
            (case get_prop attachment ''url'' of
               Inl e \<Rightarrow> (Inl e, tr)
             | Inr url \<Rightarrow>
                 (case downloadAttachment w tr url of
                    (Inl e, tr') \<Rightarrow> (Inl e, tr')
                  | (Inr imageBuffer, tr') \<Rightarrow>
                      attachment_loop w rest
                        (userContent @
                           [Image_url (''data:'' @ contentType @ '';base64,''
                                       @ toString_base64 w imageBuffer)])
                        tr'))
          else attachment_loop w rest userContent tr
      | Inr other \<Rightarrow> (Inl (TypeError ''attachment.content-type.startsWith is not a function''), tr))"

text \<open>Lines 102-107: the user content starts with the text, if it is truthy.\<close>

definition text_content :: "string option \<Rightarrow> ContentPart list" where
  "text_content strippedText =
     (case strippedText of
        Some t \<Rightarrow> if t \<noteq> [] then [Text t] else []
      | None \<Rightarrow> [])"

text \<open>
  Lines 102-125: the user content, from the text and the attachments. The handler has no
  function of its own for this part; the specification calls it \<^verbatim>\<open>normalize\<close>.
\<close>

definition build_userContent ::
  "world \<Rightarrow> string option \<Rightarrow> jsval \<Rightarrow> (thrown + ContentPart list) \<times> event list" where
  "build_userContent w strippedText atts =
     (case iterate atts of
        Inl e \<Rightarrow> (Inl e, [])
      | Inr items \<Rightarrow> attachment_loop w items (text_content strippedText) [])"

definition system_prompt :: string where
  "system_prompt = ''You are a helpful email assistant. Provide clear and concise responses. If images are included, describe them and incorporate their context into your response.''"

text \<open>Lines 89-95 and 128-138: the request given to \<^verbatim>\<open>openai.chat.completions.create\<close>.\<close>

definition completion_request :: "ContentPart list \<Rightarrow> request" where
  "completion_request userContent =
     \<lparr>messages = [System_message system_prompt, User_message userContent],
      model = ''gpt-4o-mini'',
      max_tokens = 1000\<rparr>"

text \<open>Line 140: \<^verbatim>\<open>completion.choices[0]?.message?.content\<close>.\<close>

definition first_choice_content :: "completion \<Rightarrow> string option" where
  "first_choice_content c =
     (case choices c of
        [] \<Rightarrow> None
      | ch # _ \<Rightarrow> (case message ch of None \<Rightarrow> None | Some m \<Rightarrow> content m))"

text \<open>Lines 146-153: the reply, from the body's fields and the generated text.\<close>

definition compose :: "world \<Rightarrow> MailgunWebhookBody \<Rightarrow> string \<Rightarrow> envelope" where
  "compose w body aiResponse =
     \<lparr>mail_from = FROM_EMAIL w,
      mail_to = sender body,
      mail_subject = ''Re: '' @ template (subject body),
      mail_text = aiResponse,
      h_In_Reply_To = Message_Id body,
      h_References = Message_Id body\<rparr>"

definition generation_message :: string where
  "generation_message = ''Failed to generate AI response''"

text \<open>
  The \<^verbatim>\<open>try\<close> block (lines 72-155): what it throws, or that it reached its end, and the
  external calls it made. The body is the object the body parsers of lines 36-37 leave in
  \<^verbatim>\<open>req.body\<close>. The calls of \<^verbatim>\<open>console.log\<close> are left out: they change neither what
  the handler answers nor what it calls.
\<close>

definition try_block :: "world \<Rightarrow> MailgunWebhookBody \<Rightarrow> (thrown + unit) \<times> event list" where
  "try_block w body =
     (let strippedText = stripped_text body in
      case parse_attachments w (attachments body) of
        Inl e \<Rightarrow> (Inl e, [])
      | Inr atts \<Rightarrow>
     (case check_content strippedText atts of
        Inl e \<Rightarrow> (Inl e, [])
      | Inr u \<Rightarrow>
     (case build_userContent w strippedText atts of
        (Inl e, tr) \<Rightarrow> (Inl e, tr)
      | (Inr userContent, tr) \<Rightarrow>
     (let req = completion_request userContent;
          tr1 = tr @ [Completion_call req]
      in case completions_create w tr req of
        Inl e \<Rightarrow> (Inl e, tr1)
      | Inr completion \<Rightarrow>
     (case first_choice_content completion of
        None \<Rightarrow> (Inl (Error generation_message), tr1)
      | Some aiResponse \<Rightarrow>
          if aiResponse = [] then (Inl (Error generation_message), tr1)
          else
            (let env = compose w body aiResponse;
                 tr2 = tr1 @ [Send_call (MAILGUN_DOMAIN w) env]
             in case messages_create w tr1 (MAILGUN_DOMAIN w) env of
                  Some e \<Rightarrow> (Inl e, tr2)
                | None \<Rightarrow> (Inr (), tr2)))))))"

text \<open>
  The handler of \<^verbatim>\<open>POST /api/incoming-email\<close> (lines 71-162): the response and the
  external calls made.
\<close>

definition incoming_email :: "world \<Rightarrow> MailgunWebhookBody \<Rightarrow> response \<times> event list" where
  "incoming_email w body =
     (case try_block w body of
        (Inr u, tr) \<Rightarrow> (Json 200 ''success'' ''Response sent successfully'', tr)
      | (Inl error, tr) \<Rightarrow> (Json 500 ''error'' (error_message error), tr))"

section \<open>Vocabulary of the properties\<close>

text \<open>
  The specification names the errors of the pipeline; the handler throws plain
  \<^verbatim>\<open>Error\<close>s, told apart by their message:
  \<^item> \<^verbatim>\<open>ValidationError\<close> is \<open>Error no_content_message\<close> (line 86);
  \<^item> \<^verbatim>\<open>DownloadError\<close> is \<open>Error (download_message response)\<close> (lines 62-64);
  \<^item> \<^verbatim>\<open>GenerationError\<close> is \<open>Error generation_message\<close> (line 142).

  The following functions describe an attachment as the loop reads it: its content type
  when that is a string, whether the loop takes it for an image, and the URL it would
  fetch.
\<close>

definition content_type_of :: "jsval \<Rightarrow> string option" where
  "content_type_of a =
     (case get_prop a ''content-type'' of Inr (JStr ct) \<Rightarrow> Some ct | _ \<Rightarrow> None)"

definition is_image :: "jsval \<Rightarrow> bool" where
  "is_image a = (case content_type_of a of Some ct \<Rightarrow> startsWith ct ''image/'' | None \<Rightarrow> False)"

definition url_of :: "jsval \<Rightarrow> jsval" where
  "url_of a = (case get_prop a ''url'' of Inr u \<Rightarrow> u | Inl e \<Rightarrow> JUndefined)"

text \<open>A fetch succeeds when it resolves with \<^verbatim>\<open>ok\<close> set and its body can be read.\<close>

definition fetch_succeeds :: "world \<Rightarrow> event list \<Rightarrow> jsval \<Rightarrow> bool" where
  "fetch_succeeds w tr url =
     (case fetch w tr url of
        Inr response \<Rightarrow> ok response \<and> (case arrayBuffer response of Inr b \<Rightarrow> True | Inl e \<Rightarrow> False)
      | Inl e \<Rightarrow> False)"

text \<open>
  The calls of \<^verbatim>\<open>fetch\<close> that a list of attachments gives rise to, one per attachment
  and in their order.
\<close>

definition fetches :: "jsval list \<Rightarrow> event list" where
  "fetches as = map (\<lambda>a. Fetch_call (url_of a)) as"

text \<open>
  \<open>part\<close> is the image part of the attachment \<open>a\<close>, fetched after the calls \<open>h\<close>: the
  data URI \<^verbatim>\<open>data:{contentType};base64,{data}\<close> made of the content type of \<open>a\<close> and
  of the base64 encoding of the bytes that the fetch of its URL returned.
\<close>

definition image_part_of :: "world \<Rightarrow> event list \<Rightarrow> jsval \<Rightarrow> ContentPart \<Rightarrow> bool" where
  "image_part_of w h a part =
     (case content_type_of a of
        None \<Rightarrow> False
      | Some ct \<Rightarrow>
          (case fetch w h (url_of a) of
             Inl e \<Rightarrow> False
           | Inr response \<Rightarrow>
               (case arrayBuffer response of
                  Inl e \<Rightarrow> False
                | Inr buf \<Rightarrow>
                    part = Image_url (''data:'' @ ct @ '';base64,'' @ toString_base64 w buf))))"

text \<open>
  The number that a string of decimal digits denotes: it reads the status back from the
  message of a failed download.
\<close>

definition digit_value :: "char \<Rightarrow> nat" where
  "digit_value c = of_char c - 48"

definition decimal_value :: "string \<Rightarrow> nat" where
  "decimal_value ds = foldl (\<lambda>n c. 10 * n + digit_value c) 0 ds"

section \<open>Example payloads and an example world\<close>

text \<open>
  Attachments as Mailgun sends them, as JSON text and as the value \<^verbatim>\<open>JSON.parse\<close>
  makes of that text.
\<close>

definition quoted :: "string \<Rightarrow> string" where
  "quoted s = [CHR 0x22] @ s @ [CHR 0x22]"

definition attachment_text :: "string \<Rightarrow> string \<Rightarrow> string" where
  "attachment_text url ct =
     ''{'' @ quoted ''url'' @ '':'' @ quoted url @ '','' @ quoted ''content-type'' @ '':'' @ quoted ct
       @ '','' @ quoted ''name'' @ '':'' @ quoted ''file'' @ '','' @ quoted ''size'' @ '':3}''"

definition attachment_value :: "string \<Rightarrow> string \<Rightarrow> jsval" where
  "attachment_value url ct =
     JObj [(''url'', JStr url), (''content-type'', JStr ct), (''name'', JStr ''file''), (''size'', JNum 3)]"

definition cat_png :: jsval where
  "cat_png = attachment_value ''https://files.example/cat.png'' ''image/png''"

definition dog_jpeg :: jsval where
  "dog_jpeg = attachment_value ''https://files.example/dog.jpg'' ''image/jpeg''"

definition gone_png :: jsval where
  "gone_png = attachment_value ''https://files.example/gone.png'' ''image/png''"

definition doc_pdf :: jsval where
  "doc_pdf = attachment_value ''https://files.example/doc.pdf'' ''application/pdf''"

text \<open>An attachment whose content type is a string, but not a MIME type.\<close>

definition odd_attachment :: jsval where
  "odd_attachment = attachment_value ''https://files.example/cat.png'' ''png image''"

text \<open>An attachment without a content type.\<close>

definition untyped_attachment :: jsval where
  "untyped_attachment = JObj [(''url'', JStr ''https://files.example/cat.png'')]"

definition pdf_only_text :: string where
  "pdf_only_text = ''['' @ attachment_text ''https://files.example/doc.pdf'' ''application/pdf'' @ '']''"

definition untyped_text :: string where
  "untyped_text = ''[{'' @ quoted ''url'' @ '':'' @ quoted ''https://files.example/cat.png'' @ ''}]''"

definition three_images_text :: string where
  "three_images_text =
     ''['' @ attachment_text ''https://files.example/cat.png'' ''image/png''
       @ '','' @ attachment_text ''https://files.example/gone.png'' ''image/png''
       @ '','' @ attachment_text ''https://files.example/cat.png'' ''image/png'' @ '']''"

text \<open>\<^verbatim>\<open>JSON.parse\<close> on the three texts above; every other text is taken as ill-formed.\<close>

definition example_parse :: "string \<Rightarrow> string + jsval" where
  "example_parse s =
     (if s = pdf_only_text then Inr (JArr [doc_pdf])
      else if s = untyped_text then Inr (JArr [untyped_attachment])
      else if s = three_images_text then Inr (JArr [cat_png, gone_png, cat_png])
      else Inl ''Unexpected token'')"

text \<open>A file server with two images and one URL that answers 404.\<close>

definition not_found :: fetch_response where
  "not_found = \<lparr>ok = False, status = 404, statusText = ''Not Found'', arrayBuffer = Inr []\<rparr>"

definition example_fetch :: "event list \<Rightarrow> jsval \<Rightarrow> thrown + fetch_response" where
  "example_fetch tr url =
     (if url = JStr ''https://files.example/cat.png'' then
        Inr \<lparr>ok = True, status = 200, statusText = ''OK'', arrayBuffer = Inr [0x89, 0x50, 0x4E]\<rparr>
      else if url = JStr ''https://files.example/dog.jpg'' then
        Inr \<lparr>ok = True, status = 200, statusText = ''OK'', arrayBuffer = Inr [0xFF, 0xD8, 0xFF]\<rparr>
      else if url = JStr ''https://files.example/gone.png'' then Inr not_found
      else Inl (TypeError ''fetch failed''))"

definition example_base64 :: "byte list \<Rightarrow> string" where
  "example_base64 bs =
     (if bs = [0x89, 0x50, 0x4E] then ''iVBO'' else if bs = [0xFF, 0xD8, 0xFF] then ''/9j/'' else [])"

text \<open>A world whose completion provider always answers \<^verbatim>\<open>Four.\<close> and whose mail provider accepts.\<close>

definition example_world :: world where
  "example_world =
     \<lparr>JSON_parse = example_parse,
      fetch = example_fetch,
      toString_base64 = example_base64,
      completions_create = (\<lambda>tr req. Inr \<lparr>choices = [\<lparr>message = Some \<lparr>content = Some ''Four.''\<rparr>\<rparr>]\<rparr>),
      messages_create = (\<lambda>tr d env. None),
      MAILGUN_DOMAIN = ''mg.example'',
      FROM_EMAIL = ''bot@mg.example''\<rparr>"

text \<open>The same world with a completion provider that returns no choice.\<close>

definition silent_world :: world where
  "silent_world = example_world\<lparr>completions_create := (\<lambda>tr req. Inr \<lparr>choices = []\<rparr>)\<rparr>"

text \<open>A text-only email whose subject already starts with \<^verbatim>\<open>Re: \<close>, and the reply to it.\<close>

definition scenario_A :: MailgunWebhookBody where
  "scenario_A =
     \<lparr>sender = Some ''a@x.com'', subject = Some ''Re: Hi'', stripped_text = Some ''What is 2+2?'',
      Message_Id = Some ''<1@x.com>'', attachments = JUndefined\<rparr>"

definition scenario_A_reply :: envelope where
  "scenario_A_reply =
     \<lparr>mail_from = ''bot@mg.example'', mail_to = Some ''a@x.com'', mail_subject = ''Re: Re: Hi'',
      mail_text = ''Four.'', h_In_Reply_To = Some ''<1@x.com>'', h_References = Some ''<1@x.com>''\<rparr>"

text \<open>The same email without a \<^verbatim>\<open>Message-Id\<close>, and the reply to it.\<close>

definition scenario_A_no_id :: MailgunWebhookBody where
  "scenario_A_no_id = scenario_A\<lparr>Message_Id := None\<rparr>"

definition scenario_A_no_id_reply :: envelope where
  "scenario_A_no_id_reply = scenario_A_reply\<lparr>h_In_Reply_To := None, h_References := None\<rparr>"

text \<open>An email with empty text and one PDF attached.\<close>

definition pdf_only_body :: MailgunWebhookBody where
  "pdf_only_body =
     \<lparr>sender = Some ''a@x.com'', subject = Some ''Hi'', stripped_text = Some [],
      Message_Id = Some ''<2@x.com>'', attachments = JStr pdf_only_text\<rparr>"

text \<open>An email with empty text and no attachments.\<close>

definition empty_body :: MailgunWebhookBody where
  "empty_body =
     \<lparr>sender = Some ''a@x.com'', subject = Some ''Hi'', stripped_text = Some [],
      Message_Id = Some ''<3@x.com>'', attachments = JUndefined\<rparr>"

text \<open>An email with text and no sender.\<close>

definition no_sender_body :: MailgunWebhookBody where
  "no_sender_body =
     \<lparr>sender = None, subject = Some ''Hi'', stripped_text = Some ''What is 2+2?'',
      Message_Id = Some ''<4@x.com>'', attachments = JUndefined\<rparr>"

text \<open>An email with text and one attachment that has no content type.\<close>

definition untyped_body :: MailgunWebhookBody where
  "untyped_body =
     \<lparr>sender = Some ''a@x.com'', subject = Some ''Hi'', stripped_text = Some ''See attached'',
      Message_Id = Some ''<5@x.com>'', attachments = JStr untyped_text\<rparr>"

text \<open>An email with text and three images, the second of which cannot be downloaded.\<close>

definition three_images_body :: MailgunWebhookBody where
  "three_images_body =
     \<lparr>sender = Some ''a@x.com'', subject = Some ''Hi'', stripped_text = Some ''See attached'',
      Message_Id = Some ''<6@x.com>'', attachments = JStr three_images_text\<rparr>"

text \<open>An email with text and no \<^verbatim>\<open>subject\<close> field, and the reply to it.\<close>

definition no_subject_body :: MailgunWebhookBody where
  "no_subject_body =
     \<lparr>sender = Some ''a@x.com'', subject = None, stripped_text = Some ''What is 2+2?'',
      Message_Id = Some ''<7@x.com>'', attachments = JUndefined\<rparr>"

definition no_subject_reply :: envelope where
  "no_subject_reply =
     \<lparr>mail_from = ''bot@mg.example'', mail_to = Some ''a@x.com'', mail_subject = ''Re: undefined'',
      mail_text = ''Four.'', h_In_Reply_To = Some ''<7@x.com>'', h_References = Some ''<7@x.com>''\<rparr>"

lemmas handler_defs =
  incoming_email_def try_block_def parse_attachments_def check_content_def
  build_userContent_def text_content_def completion_request_def first_choice_content_def
  compose_def downloadAttachment_def startsWith_def no_content_message_def
  generation_message_def

lemmas example_defs =
  example_world_def silent_world_def example_parse_def example_fetch_def example_base64_def
  pdf_only_text_def untyped_text_def three_images_text_def attachment_text_def quoted_def
  attachment_value_def cat_png_def dog_jpeg_def gone_png_def doc_pdf_def odd_attachment_def
  untyped_attachment_def not_found_def

section \<open>Properties of the loop and of the handler\<close>

text \<open>The trace only grows, and the loop adds nothing but fetches to it.\<close>

lemma downloadAttachment_trace:
  "downloadAttachment w tr url = (r, tr') \<Longrightarrow> tr' = tr @ [Fetch_call url]"
  by (auto simp: downloadAttachment_def Let_def split: sum.splits if_splits)

lemma attachment_loop_trace:
  "attachment_loop w items uc tr = (r, tr') \<Longrightarrow> \<exists>us. tr' = tr @ map Fetch_call us"
proof (induction items arbitrary: uc tr)
  case Nil
  then show ?case by simp
next
  case (Cons a items)
  show ?case
  proof (cases "get_prop a ''content-type''")
    case (Inl e)
    with Cons.prems show ?thesis by simp
  next
    case (Inr ct)
    show ?thesis
    proof (cases ct)
      case (JStr s)
      show ?thesis
      proof (cases "startsWith s ''image/''")
        case False
        with Cons.prems Inr JStr have "attachment_loop w items uc tr = (r, tr')" by simp
        then show ?thesis by (rule Cons.IH)
      next
        case True
        show ?thesis
        proof (cases "get_prop a ''url''")
          case (Inl e)
          with Cons.prems Inr JStr True show ?thesis by simp
        next
          case url: (Inr url)
          obtain d tr1 where d: "downloadAttachment w tr url = (d, tr1)" by force
          then have tr1: "tr1 = tr @ [Fetch_call url]" by (rule downloadAttachment_trace)
          show ?thesis
          proof (cases d)
            case (Inl e)
            with Cons.prems Inr JStr True url d tr1 have "tr' = tr @ map Fetch_call [url]" by simp
            then show ?thesis by blast
          next
            case buf: (Inr buf)
            with Cons.prems Inr JStr True url d
            have "\<exists>us. tr' = tr1 @ map Fetch_call us" by (auto intro: Cons.IH)
            then obtain us where "tr' = tr @ map Fetch_call (url # us)" using tr1 by auto
            then show ?thesis by blast
          qed
        qed
      qed
    qed (use Cons.prems Inr in auto)
  qed
qed

lemma attachment_loop_append:
  "attachment_loop w (xs @ ys) uc tr =
     (case attachment_loop w xs uc tr of
        (Inl e, tr') \<Rightarrow> (Inl e, tr')
      | (Inr uc', tr') \<Rightarrow> attachment_loop w ys uc' tr')"
  by (induction xs arbitrary: uc tr) (auto split: sum.splits jsval.splits prod.splits)

lemma build_userContent_trace:
  assumes that: "build_userContent w t atts = (r, tr)"
  shows "\<exists>us. tr = map Fetch_call us"
proof (cases "iterate atts")
  case (Inl e)
  with that show ?thesis by (simp add: build_userContent_def)
next
  case (Inr items)
  with that have "attachment_loop w items (text_content t) [] = (r, tr)"
    by (simp add: build_userContent_def)
  from attachment_loop_trace [OF this] show ?thesis by simp
qed

lemma try_block_cases:
  assumes "try_block w body = (r, tr)"
  obtains
    (parse) e where "parse_attachments w (attachments body) = Inl e" "r = Inl e" "tr = []"
  | (check) atts e where "parse_attachments w (attachments body) = Inr atts"
      "check_content (stripped_text body) atts = Inl e" "r = Inl e" "tr = []"
  | (build) atts e where "parse_attachments w (attachments body) = Inr atts"
      "check_content (stripped_text body) atts = Inr ()"
      "build_userContent w (stripped_text body) atts = (Inl e, tr)" "r = Inl e"
  | (completion) atts uc tr0 e where "parse_attachments w (attachments body) = Inr atts"
      "check_content (stripped_text body) atts = Inr ()"
      "build_userContent w (stripped_text body) atts = (Inr uc, tr0)"
      "completions_create w tr0 (completion_request uc) = Inl e" "r = Inl e"
      "tr = tr0 @ [Completion_call (completion_request uc)]"
  | (no_reply) atts uc tr0 c where "parse_attachments w (attachments body) = Inr atts"
      "check_content (stripped_text body) atts = Inr ()"
      "build_userContent w (stripped_text body) atts = (Inr uc, tr0)"
      "completions_create w tr0 (completion_request uc) = Inr c"
      "first_choice_content c = None \<or> first_choice_content c = Some []"
      "r = Inl (Error generation_message)"
      "tr = tr0 @ [Completion_call (completion_request uc)]"
  | (sent) atts uc tr0 c reply where "parse_attachments w (attachments body) = Inr atts"
      "check_content (stripped_text body) atts = Inr ()"
      "build_userContent w (stripped_text body) atts = (Inr uc, tr0)"
      "completions_create w tr0 (completion_request uc) = Inr c"
      "first_choice_content c = Some reply" "reply \<noteq> []"
      "r = (case messages_create w (tr0 @ [Completion_call (completion_request uc)])
                  (MAILGUN_DOMAIN w) (compose w body reply) of
              Some e \<Rightarrow> Inl e | None \<Rightarrow> Inr ())"
      "tr = tr0 @ [Completion_call (completion_request uc),
                   Send_call (MAILGUN_DOMAIN w) (compose w body reply)]"
proof (cases "parse_attachments w (attachments body)")
  case (Inl e)
  with assms have "r = Inl e" "tr = []" by (simp_all add: try_block_def)
  with Inl show thesis by (rule parse)
next
  case atts: (Inr atts)
  show thesis
  proof (cases "check_content (stripped_text body) atts")
    case (Inl e)
    with assms atts have "r = Inl e" "tr = []" by (simp_all add: try_block_def)
    with atts Inl show thesis by (rule check)
  next
    case (Inr u)
    then have chk: "check_content (stripped_text body) atts = Inr ()" by simp
    obtain b tr0 where b: "build_userContent w (stripped_text body) atts = (b, tr0)" by force
    show thesis
    proof (cases b)
      case (Inl e)
      with assms atts chk b have "r = Inl e" "tr = tr0" by (simp_all add: try_block_def)
      with atts chk b Inl show thesis using build by simp
    next
      case uc: (Inr uc)
      note pre = atts chk b [unfolded uc]
      show thesis
      proof (cases "completions_create w tr0 (completion_request uc)")
        case (Inl e)
        with assms pre have "r = Inl e" "tr = tr0 @ [Completion_call (completion_request uc)]"
          by (simp_all add: try_block_def Let_def)
        with pre Inl show thesis by (rule completion)
      next
        case c: (Inr c)
        show thesis
        proof (cases "first_choice_content c")
          case None
          with assms pre c have "r = Inl (Error generation_message)"
            "tr = tr0 @ [Completion_call (completion_request uc)]"
            by (simp_all add: try_block_def Let_def)
          with pre c None show thesis using no_reply by blast
        next
          case (Some reply)
          show thesis
          proof (cases "reply = []")
            case True
            with assms pre c Some have "r = Inl (Error generation_message)"
              "tr = tr0 @ [Completion_call (completion_request uc)]"
              by (simp_all add: try_block_def Let_def)
            with pre c Some True show thesis using no_reply by blast
          next
            case False
            with assms pre c Some
            have "r = (case messages_create w (tr0 @ [Completion_call (completion_request uc)])
                              (MAILGUN_DOMAIN w) (compose w body reply) of
                         Some e \<Rightarrow> Inl e | None \<Rightarrow> Inr ())"
              "tr = tr0 @ [Completion_call (completion_request uc),
                           Send_call (MAILGUN_DOMAIN w) (compose w body reply)]"
              by (simp_all add: try_block_def Let_def split: option.splits)
            with pre c Some False show thesis by (rule sent)
          qed
        qed
      qed
    qed
  qed
qed

lemma send_in_trace:
  assumes "Send_call d env \<in> set (snd (try_block w body))"
  shows "\<exists>atts uc tr0 c reply.
           parse_attachments w (attachments body) = Inr atts
         \<and> check_content (stripped_text body) atts = Inr ()
         \<and> build_userContent w (stripped_text body) atts = (Inr uc, tr0)
         \<and> completions_create w tr0 (completion_request uc) = Inr c
         \<and> first_choice_content c = Some reply \<and> reply \<noteq> []
         \<and> d = MAILGUN_DOMAIN w \<and> env = compose w body reply
         \<and> snd (try_block w body) =
              tr0 @ [Completion_call (completion_request uc), Send_call d env]"
proof -
  obtain r tr where run: "try_block w body = (r, tr)" by force
  with assms have mem: "Send_call d env \<in> set tr" by simp
  from run show ?thesis
  proof (cases rule: try_block_cases)
    case (parse e)
    with mem show ?thesis by simp
  next
    case (check atts e)
    with mem show ?thesis by simp
  next
    case (build atts e)
    from build_userContent_trace [OF build(3)] mem show ?thesis by auto
  next
    case (completion atts uc tr0 e)
    from build_userContent_trace [OF completion(3)] mem completion(6) show ?thesis by auto
  next
    case (no_reply atts uc tr0 c)
    from build_userContent_trace [OF no_reply(3)] mem no_reply(7) show ?thesis by auto
  next
    case (sent atts uc tr0 c reply)
    from build_userContent_trace [OF sent(3)] mem sent(8)
    have "d = MAILGUN_DOMAIN w \<and> env = compose w body reply" by auto
    with sent run show ?thesis by simp
  qed
qed

lemma incoming_email_trace: "snd (incoming_email w body) = snd (try_block w body)"
  by (simp add: incoming_email_def split: prod.splits sum.splits)

lemma parse_attachments_throws:
  "parse_attachments w a = Inl e \<Longrightarrow> \<exists>m. e = SyntaxError m"
  by (auto simp: parse_attachments_def split: if_splits jsval.splits sum.splits)

lemma get_prop_throws: "get_prop v k = Inl e \<Longrightarrow> \<exists>m. e = TypeError m"
  by (cases v) auto

lemma attachment_loop_throws:
  "attachment_loop w items uc tr = (Inl e, tr') \<Longrightarrow> (\<exists>m. e = TypeError m) \<or> tr' \<noteq> tr"
proof (induction items arbitrary: uc tr)
  case Nil
  then show ?case by simp
next
  case (Cons a items)
  show ?case
  proof (cases "get_prop a ''content-type''")
    case (Inl e')
    with Cons.prems get_prop_throws [OF Inl] show ?thesis by auto
  next
    case (Inr ct)
    show ?thesis
    proof (cases ct)
      case (JStr s)
      show ?thesis
      proof (cases "startsWith s ''image/''")
        case False
        with Cons.prems Inr JStr have "attachment_loop w items uc tr = (Inl e, tr')" by simp
        then show ?thesis by (rule Cons.IH)
      next
        case True
        show ?thesis
        proof (cases "get_prop a ''url''")
          case (Inl e')
          with Cons.prems Inr JStr True get_prop_throws [OF Inl] show ?thesis by auto
        next
          case url: (Inr url)
          obtain d tr1 where d: "downloadAttachment w tr url = (d, tr1)" by force
          then have tr1: "tr1 = tr @ [Fetch_call url]" by (rule downloadAttachment_trace)
          show ?thesis
          proof (cases d)
            case (Inl e')
            with Cons.prems Inr JStr True url d tr1 have "tr' = tr @ [Fetch_call url]" by simp
            then show ?thesis by simp
          next
            case buf: (Inr buf)
            with Cons.prems Inr JStr True url d
            have "\<exists>us. tr' = tr1 @ map Fetch_call us" by (auto intro: attachment_loop_trace)
            with tr1 show ?thesis by auto
          qed
        qed
      qed
    qed (use Cons.prems Inr in auto)
  qed
qed

lemma build_userContent_throws:
  assumes "build_userContent w t atts = (Inl e, [])"
  shows "\<exists>m. e = TypeError m"
proof (cases "iterate atts")
  case (Inl e')
  with assms have "e = e'" by (simp add: build_userContent_def)
  with Inl show ?thesis by (cases atts) auto
next
  case (Inr items)
  with assms have "attachment_loop w items (text_content t) [] = (Inl e, [])"
    by (simp add: build_userContent_def)
  from attachment_loop_throws [OF this] show ?thesis by simp
qed

lemma check_content_no_content:
  "check_content t atts = Inl (Error m) \<longleftrightarrow>
     m = no_content_message \<and> \<not> truthy_field t \<and> get_prop atts ''length'' = Inr (JNum 0)"
  by (auto simp: check_content_def split: sum.splits dest: get_prop_throws)


lemma build_userContent_no_attachments:
  "build_userContent w t (JArr []) = (Inr (text_content t), [])"
  by (simp add: build_userContent_def)


lemma attachment_loop_images:
  assumes "\<forall>a \<in> set items. content_type_of a \<noteq> None"
      and "\<forall>a \<in> set items. is_image a \<longrightarrow> (\<forall>h. fetch_succeeds w h (url_of a))"
  shows "\<exists>parts. attachment_loop w items uc tr =
                  (Inr (uc @ parts), tr @ fetches (filter is_image items))
               \<and> length parts = length (filter is_image items)
               \<and> (\<forall>i < length (filter is_image items).
                     image_part_of w (tr @ fetches (take i (filter is_image items)))
                       (filter is_image items ! i) (parts ! i))"
  using assms
proof (induction items arbitrary: uc tr)
  case Nil
  then show ?case by (simp add: fetches_def)
next
  case (Cons a items)
  let ?imgs = "filter is_image items"
  from Cons.prems obtain ct where ct: "get_prop a ''content-type'' = Inr (JStr ct)"
    by (auto simp: content_type_of_def split: sum.splits jsval.splits)
  then have cto: "content_type_of a = Some ct" by (simp add: content_type_of_def)
  from Cons.prems have rest: "\<forall>a \<in> set items. content_type_of a \<noteq> None"
    "\<forall>a \<in> set items. is_image a \<longrightarrow> (\<forall>h. fetch_succeeds w h (url_of a))" by simp_all
  show ?case
  proof (cases "startsWith ct ''image/''")
    case False
    then have "\<not> is_image a" by (simp add: is_image_def cto)
    with Cons.IH [OF rest, of uc tr] ct False show ?thesis by simp
  next
    case True
    then have img: "is_image a" by (simp add: is_image_def cto)
    from ct obtain url where url: "get_prop a ''url'' = Inr url" by (cases a) auto
    then have uo: "url_of a = url" by (simp add: url_of_def)
    from Cons.prems img uo have "fetch_succeeds w tr url" by auto
    then obtain response buf where f: "fetch w tr url = Inr response" "ok response"
      "arrayBuffer response = Inr buf"
      by (auto simp: fetch_succeeds_def split: sum.splits)
    then have d: "downloadAttachment w tr url = (Inr buf, tr @ [Fetch_call url])"
      by (simp add: downloadAttachment_def)
    let ?part = "Image_url (''data:'' @ ct @ '';base64,'' @ toString_base64 w buf)"
    from Cons.IH [OF rest, of "uc @ [?part]" "tr @ [Fetch_call url]"]
    obtain parts where IH:
      "attachment_loop w items (uc @ [?part]) (tr @ [Fetch_call url])
        = (Inr ((uc @ [?part]) @ parts), (tr @ [Fetch_call url]) @ fetches ?imgs)"
      "length parts = length ?imgs"
      "\<forall>i < length ?imgs.
         image_part_of w ((tr @ [Fetch_call url]) @ fetches (take i ?imgs)) (?imgs ! i) (parts ! i)"
      by blast
    have first: "image_part_of w tr a ?part"
      by (simp add: image_part_of_def cto uo f)
    have loop: "attachment_loop w (a # items) uc tr
                  = (Inr (uc @ ?part # parts), tr @ fetches (filter is_image (a # items)))"
      using IH(1) ct True url d img uo by (simp add: fetches_def)
    have len: "length (?part # parts) = length (filter is_image (a # items))"
      using IH(2) img by simp
    have parts: "image_part_of w (tr @ fetches (take i (filter is_image (a # items))))
                   (filter is_image (a # items) ! i) ((?part # parts) ! i)"
      if "i < length (filter is_image (a # items))" for i
    proof (cases i)
      case 0
      with first img show ?thesis by (simp add: fetches_def)
    next
      case (Suc j)
      with that img have "j < length ?imgs" by simp
      with IH(3) have "image_part_of w ((tr @ [Fetch_call url]) @ fetches (take j ?imgs))
                         (?imgs ! j) (parts ! j)" by blast
      with Suc img uo show ?thesis by (simp add: fetches_def)
    qed
    from loop len parts show ?thesis by blast
  qed
qed

text \<open>The digits of \<open>string_of_nat n\<close> are decimal digits and denote \<open>n\<close>.\<close>

lemma digit_value_digit: "d < 10 \<Longrightarrow> digit_value (''0123456789'' ! d) = d"
proof -
  assume "d < 10"
  then have "d = 0 \<or> d = 1 \<or> d = 2 \<or> d = 3 \<or> d = 4 \<or> d = 5 \<or> d = 6 \<or> d = 7 \<or> d = 8
    \<or> d = 9" by arith
  then show ?thesis by (elim disjE) (simp_all add: digit_value_def)
qed

lemma decimal_value_snoc: "decimal_value (ds @ [c]) = 10 * decimal_value ds + digit_value c"
  by (simp add: decimal_value_def)

lemma decimal_value_string_of_nat: "decimal_value (string_of_nat n) = n"
proof (induction n rule: string_of_nat.induct)
  case (1 n)
  show ?case
  proof (cases "n < 10")
    case True
    then have "string_of_nat n = [] @ [''0123456789'' ! n]" by (simp add: string_of_nat.simps)
    then have "decimal_value (string_of_nat n) = digit_value (''0123456789'' ! n)"
      by (simp only: decimal_value_snoc) (simp add: decimal_value_def)
    with True show ?thesis by (simp add: digit_value_digit)
  next
    case False
    then have "string_of_nat n = string_of_nat (n div 10) @ [''0123456789'' ! (n mod 10)]"
      by (subst string_of_nat.simps) simp
    then have "decimal_value (string_of_nat n)
                 = 10 * decimal_value (string_of_nat (n div 10))
                   + digit_value (''0123456789'' ! (n mod 10))"
      by (simp only: decimal_value_snoc)
    with "1.IH" [OF False] show ?thesis by (simp add: digit_value_digit)
  qed
qed

lemma string_of_nat_digits: "set (string_of_nat n) \<subseteq> set ''0123456789''"
proof (induction n rule: string_of_nat.induct)
  case (1 n)
  have digit: "''0123456789'' ! d \<in> set ''0123456789''" if "d < 10" for d
    using that by (intro nth_mem) simp
  show ?case
  proof (cases "n < 10")
    case True
    then have "string_of_nat n = [''0123456789'' ! n]" by (simp add: string_of_nat.simps)
    with digit [OF True] show ?thesis by simp
  next
    case False
    then have "string_of_nat n = string_of_nat (n div 10) @ [''0123456789'' ! (n mod 10)]"
      by (subst string_of_nat.simps) simp
    with "1.IH" [OF False] digit [of "n mod 10"] show ?thesis by simp
  qed
qed

lemma scenario_A_run:
  "incoming_email example_world scenario_A =
     (Json 200 ''success'' ''Response sent successfully'',
      [Completion_call (completion_request [Text ''What is 2+2?'']),
       Send_call ''mg.example'' scenario_A_reply])"
  by (simp add: handler_defs example_defs scenario_A_def scenario_A_reply_def)

lemma scenario_A_no_id_run:
  "incoming_email example_world scenario_A_no_id =
     (Json 200 ''success'' ''Response sent successfully'',
      [Completion_call (completion_request [Text ''What is 2+2?'']),
       Send_call ''mg.example'' scenario_A_no_id_reply])"
  by (simp add: handler_defs example_defs scenario_A_def scenario_A_reply_def
        scenario_A_no_id_def scenario_A_no_id_reply_def)

lemma scenario_A_silent_run:
  "incoming_email silent_world scenario_A =
     (Json 500 ''error'' ''Failed to generate AI response'',
      [Completion_call (completion_request [Text ''What is 2+2?''])])"
  by (simp add: handler_defs example_defs scenario_A_def)

lemma no_subject_run:
  "incoming_email example_world no_subject_body =
     (Json 200 ''success'' ''Response sent successfully'',
      [Completion_call (completion_request [Text ''What is 2+2?'']),
       Send_call ''mg.example'' no_subject_reply])"
  by (simp add: handler_defs example_defs no_subject_body_def no_subject_reply_def)

section \<open>The claims of the specification\<close>

subsection \<open>C1: a record without usable content\<close>

text \<open>
  C1 as stated fails: an email with empty text and one PDF attachment is not rejected. The
  check of line 85 counts the attachments, not the images among them, so the handler calls
  the completion provider with an empty user content and sends the reply.
\<close>

theorem non_image_only_not_rejected:
  "stripped_text pdf_only_body = Some []
   \<and> parse_attachments example_world (attachments pdf_only_body) = Inr (JArr [doc_pdf])
   \<and> get_prop doc_pdf ''content-type'' = Inr (JStr ''application/pdf'')
   \<and> incoming_email example_world pdf_only_body =
       (Json 200 ''success'' ''Response sent successfully'',
        [Completion_call (completion_request []),
         Send_call ''mg.example''
           \<lparr>mail_from = ''bot@mg.example'', mail_to = Some ''a@x.com'', mail_subject = ''Re: Hi'',
            mail_text = ''Four.'', h_In_Reply_To = Some ''<2@x.com>'',
            h_References = Some ''<2@x.com>''\<rparr>])
   \<and> fst (incoming_email example_world pdf_only_body)
       \<noteq> Json 500 ''error'' ''No email content or attachments found''"
  by (simp add: handler_defs example_defs pdf_only_body_def)

text \<open>
  The same happens in every world: with a falsy text and a non-empty list of attachments
  that all have a string content type and are no images, the first external call of the
  run is the completion request with an empty user content.
\<close>

lemma non_image_only_reaches_completion:
  assumes "\<not> truthy_field (stripped_text body)"
      and "parse_attachments w (attachments body) = Inr (JArr items)"
      and "items \<noteq> []"
      and "\<forall>a \<in> set items. content_type_of a \<noteq> None \<and> \<not> is_image a"
  shows "\<exists>tr. snd (incoming_email w body) = Completion_call (completion_request []) # tr"
proof -
  from assms(4) have f: "filter is_image items = []" by (simp add: filter_empty_conv)
  from assms(4) have "\<forall>a \<in> set items. content_type_of a \<noteq> None"
    and "\<forall>a \<in> set items. is_image a \<longrightarrow> (\<forall>h. fetch_succeeds w h (url_of a))" by simp_all
  from attachment_loop_images [OF this, of "[]" "[]"] f
  have l: "attachment_loop w items [] [] = (Inr [], [])" by (auto simp: fetches_def)
  from assms(1) have t: "text_content (stripped_text body) = []"
    by (cases "stripped_text body") (simp_all add: text_content_def)
  from assms(3) have k: "check_content (stripped_text body) (JArr items) = Inr ()"
    by (simp add: check_content_def)
  from l t have b: "build_userContent w (stripped_text body) (JArr items) = (Inr [], [])"
    by (simp add: build_userContent_def)
  show ?thesis
    by (simp add: incoming_email_trace try_block_def Let_def assms(2) k b
          split: sum.splits option.splits)
qed

text \<open>
  C1, amended: when the text is absent or empty and the attachment list is empty (the
  field is absent, is not a non-empty string, or decodes to the empty array), the handler
  answers with the error \<^verbatim>\<open>No email content or attachments found\<close> and has made no
  external call: no fetch, no completion, no send.
\<close>

theorem no_text_no_attachments_rejected:
  assumes "\<not> truthy_field (stripped_text body)"
      and "parse_attachments w (attachments body) = Inr (JArr [])"
  shows "incoming_email w body = (Json 500 ''error'' ''No email content or attachments found'', [])"
  using assms
  by (simp add: incoming_email_def try_block_def check_content_def no_content_message_def)

theorem no_text_no_attachments_rejected_witness:
  "\<not> truthy_field (stripped_text empty_body)
   \<and> parse_attachments example_world (attachments empty_body) = Inr (JArr [])
   \<and> incoming_email example_world empty_body
       = (Json 500 ''error'' ''No email content or attachments found'', [])"
proof -
  have t: "\<not> truthy_field (stripped_text empty_body)" by (simp add: empty_body_def)
  have p: "parse_attachments example_world (attachments empty_body) = Inr (JArr [])"
    by (simp add: parse_attachments_def empty_body_def)
  from no_text_no_attachments_rejected [OF t p] t p show ?thesis by simp
qed

subsection \<open>C2: attachments that are not images\<close>

text \<open>
  C2 as stated fails for a missing content type: line 114 calls \<^verbatim>\<open>startsWith\<close> on
  \<^verbatim>\<open>undefined\<close>, which throws a \<^verbatim>\<open>TypeError\<close>; the handler answers 500 and calls no
  provider.
\<close>

theorem missing_content_type_throws:
  "parse_attachments example_world (attachments untyped_body) = Inr (JArr [untyped_attachment])
   \<and> get_prop untyped_attachment ''content-type'' = Inr JUndefined
   \<and> build_userContent example_world (stripped_text untyped_body) (JArr [untyped_attachment])
       = (Inl (TypeError (cannot_read ''undefined'' ''startsWith'')), [])
   \<and> incoming_email example_world untyped_body
       = (Json 500 ''error'' (cannot_read ''undefined'' ''startsWith''), [])"
  by (simp add: handler_defs example_defs untyped_body_def)

text \<open>
  C2, amended: an attachment whose content type is a string that does not begin with
  \<^verbatim>\<open>image/\<close> (a string that is no MIME type included) is skipped. Wherever it stands
  in the list, the loop ends as it does on the list without it: it adds no content part,
  makes no fetch and throws nothing because of it.
\<close>

theorem non_image_attachment_skipped:
  assumes "get_prop a ''content-type'' = Inr (JStr ct)"
      and "\<not> startsWith ct ''image/''"
  shows "attachment_loop w (pre @ a # post) uc tr = attachment_loop w (pre @ post) uc tr"
proof -
  have "attachment_loop w (a # post) uc' tr' = attachment_loop w post uc' tr'" for uc' tr'
    using assms by simp
  then show ?thesis
    by (simp add: attachment_loop_append [of w pre] split: prod.splits sum.splits)
qed

theorem non_image_attachment_skipped_witness:
  "get_prop odd_attachment ''content-type'' = Inr (JStr ''png image'')
   \<and> \<not> startsWith ''png image'' ''image/''
   \<and> attachment_loop example_world ([cat_png] @ odd_attachment # [doc_pdf]) [Text ''Hi''] []
       = attachment_loop example_world ([cat_png] @ [doc_pdf]) [Text ''Hi''] []
   \<and> attachment_loop example_world ([cat_png] @ [doc_pdf]) [Text ''Hi''] []
       = (Inr [Text ''Hi'', Image_url ''data:image/png;base64,iVBO''],
          [Fetch_call (JStr ''https://files.example/cat.png'')])"
proof -
  have c: "get_prop odd_attachment ''content-type'' = Inr (JStr ''png image'')"
    by (simp add: odd_attachment_def attachment_value_def)
  have n: "\<not> startsWith ''png image'' ''image/''" by (simp add: startsWith_def)
  have r: "attachment_loop example_world ([cat_png] @ [doc_pdf]) [Text ''Hi''] []
       = (Inr [Text ''Hi'', Image_url ''data:image/png;base64,iVBO''],
          [Fetch_call (JStr ''https://files.example/cat.png'')])"
    by (simp add: handler_defs example_defs)
  from non_image_attachment_skipped [OF c n, of example_world "[cat_png]" "[doc_pdf]"] c n r
  show ?thesis by simp
qed

subsection \<open>C3: the text first, then the images in order\<close>




subsection \<open>C4: nothing is sent unless every earlier step succeeded\<close>

text \<open>
  C4: in every run of the handler,
  \<^item> if \<^verbatim>\<open>mg.messages.create\<close> was called, then every step before it succeeded: the
    attachments were parsed, the content check passed, every download succeeded, the
    completion provider returned, and its first choice had a non-empty text; the send is
    the last call of the run and the only one (so a failure of validation, of a download,
    of the completion or of the extraction of the reply leaves the trace without a send);
  \<^item> the response is the success response only if the run ends with a send that the mail
    provider accepted;
  \<^item> every other response is a 500 with status \<^verbatim>\<open>error\<close>.
\<close>

theorem send_only_after_all_steps:
  "(\<forall>d env. Send_call d env \<in> set (snd (incoming_email w body)) \<longrightarrow>
      (\<exists>atts uc us c reply.
          parse_attachments w (attachments body) = Inr atts
        \<and> check_content (stripped_text body) atts = Inr ()
        \<and> build_userContent w (stripped_text body) atts = (Inr uc, map Fetch_call us)
        \<and> completions_create w (map Fetch_call us) (completion_request uc) = Inr c
        \<and> first_choice_content c = Some reply \<and> reply \<noteq> []
        \<and> snd (incoming_email w body) =
             map Fetch_call us @ [Completion_call (completion_request uc), Send_call d env]))
   \<and> (fst (incoming_email w body) = Json 200 ''success'' ''Response sent successfully'' \<longrightarrow>
        (\<exists>tr d env. snd (incoming_email w body) = tr @ [Send_call d env]
                   \<and> messages_create w tr d env = None))
   \<and> (fst (incoming_email w body) \<noteq> Json 200 ''success'' ''Response sent successfully'' \<longrightarrow>
        (\<exists>m. fst (incoming_email w body) = Json 500 ''error'' m))"
proof (intro conjI allI impI)
  fix d env
  assume "Send_call d env \<in> set (snd (incoming_email w body))"
  then have "Send_call d env \<in> set (snd (try_block w body))"
    by (simp add: incoming_email_trace)
  from send_in_trace [OF this] obtain atts uc tr0 c reply where
    *: "parse_attachments w (attachments body) = Inr atts"
       "check_content (stripped_text body) atts = Inr ()"
       "build_userContent w (stripped_text body) atts = (Inr uc, tr0)"
       "completions_create w tr0 (completion_request uc) = Inr c"
       "first_choice_content c = Some reply" "reply \<noteq> []"
       "snd (try_block w body) = tr0 @ [Completion_call (completion_request uc), Send_call d env]"
    by blast
  from build_userContent_trace [OF *(3)] obtain us where "tr0 = map Fetch_call us" ..
  with * show "\<exists>atts uc us c reply.
          parse_attachments w (attachments body) = Inr atts
        \<and> check_content (stripped_text body) atts = Inr ()
        \<and> build_userContent w (stripped_text body) atts = (Inr uc, map Fetch_call us)
        \<and> completions_create w (map Fetch_call us) (completion_request uc) = Inr c
        \<and> first_choice_content c = Some reply \<and> reply \<noteq> []
        \<and> snd (incoming_email w body) =
             map Fetch_call us @ [Completion_call (completion_request uc), Send_call d env]"
    by (auto simp: incoming_email_trace)
next
  obtain r tr where run: "try_block w body = (r, tr)" by force
  assume "fst (incoming_email w body) = Json 200 ''success'' ''Response sent successfully''"
  with run have r: "r = Inr ()" by (cases r) (simp_all add: incoming_email_def)
  from run have "\<exists>tr1 d env. tr = tr1 @ [Send_call d env] \<and> messages_create w tr1 d env = None"
  proof (cases rule: try_block_cases)
    case (sent atts uc tr0 c reply)
    with r have "messages_create w (tr0 @ [Completion_call (completion_request uc)])
                   (MAILGUN_DOMAIN w) (compose w body reply) = None"
      by (simp split: option.splits)
    with sent(8) show ?thesis by simp
  qed (use r in simp_all)
  with run show "\<exists>tr d env. snd (incoming_email w body) = tr @ [Send_call d env]
                   \<and> messages_create w tr d env = None"
    by (simp add: incoming_email_trace)
next
  assume "fst (incoming_email w body) \<noteq> Json 200 ''success'' ''Response sent successfully''"
  then show "\<exists>m. fst (incoming_email w body) = Json 500 ''error'' m"
    by (auto simp: incoming_email_def split: prod.splits sum.splits)
qed

theorem send_only_after_all_steps_witness:
  "Send_call ''mg.example'' scenario_A_reply \<in> set (snd (incoming_email example_world scenario_A))
   \<and> fst (incoming_email example_world scenario_A) = Json 200 ''success'' ''Response sent successfully''
   \<and> (\<exists>tr d env. snd (incoming_email example_world scenario_A) = tr @ [Send_call d env]
                 \<and> messages_create example_world tr d env = None)
   \<and> fst (incoming_email silent_world scenario_A) \<noteq> Json 200 ''success'' ''Response sent successfully''
   \<and> (\<exists>m. fst (incoming_email silent_world scenario_A) = Json 500 ''error'' m)"
proof -
  have m: "Send_call ''mg.example'' scenario_A_reply
             \<in> set (snd (incoming_email example_world scenario_A))"
    by (simp add: scenario_A_run)
  have s: "fst (incoming_email example_world scenario_A)
             = Json 200 ''success'' ''Response sent successfully''"
    by (simp add: scenario_A_run)
  have f: "fst (incoming_email silent_world scenario_A)
             \<noteq> Json 200 ''success'' ''Response sent successfully''"
    by (simp add: scenario_A_silent_run)
  from send_only_after_all_steps [of example_world scenario_A] s
  have "\<exists>tr d env. snd (incoming_email example_world scenario_A) = tr @ [Send_call d env]
                 \<and> messages_create example_world tr d env = None"
    by blast
  moreover from send_only_after_all_steps [of silent_world scenario_A] f
  have "\<exists>m. fst (incoming_email silent_world scenario_A) = Json 500 ''error'' m"
    by blast
  ultimately show ?thesis using m s f by blast
qed

subsection \<open>C5: the subject of the reply\<close>

text \<open>
  C5 as stated fails for an email without a \<^verbatim>\<open>subject\<close> field, whose original subject
  is empty by the interface of the webhook: line 149 interpolates \<^verbatim>\<open>undefined\<close>, and the
  reply goes out with the subject \<^verbatim>\<open>Re: undefined\<close>, not \<^verbatim>\<open>Re: \<close>.
\<close>

theorem absent_subject_reply:
  "subject no_subject_body = None
   \<and> incoming_email example_world no_subject_body =
       (Json 200 ''success'' ''Response sent successfully'',
        [Completion_call (completion_request [Text ''What is 2+2?'']),
         Send_call ''mg.example''
           \<lparr>mail_from = ''bot@mg.example'', mail_to = Some ''a@x.com'',
            mail_subject = ''Re: undefined'', mail_text = ''Four.'',
            h_In_Reply_To = Some ''<7@x.com>'', h_References = Some ''<7@x.com>''\<rparr>])
   \<and> mail_subject (compose example_world no_subject_body ''Four.'') \<noteq> ''Re: ''"
  by (simp add: handler_defs example_defs no_subject_body_def)

text \<open>
  C5, amended: for every email and every reply text, the subject of the composed reply,
  and of every envelope the handler hands to the mail provider, is \<^verbatim>\<open>Re: \<close> followed by
  the original subject when the email has a \<^verbatim>\<open>subject\<close> field, whatever that subject is
  (it may be empty, and it may itself begin with \<^verbatim>\<open>Re: \<close>), and is \<^verbatim>\<open>Re: undefined\<close>
  when the email has no \<^verbatim>\<open>subject\<close> field.
\<close>

theorem reply_subject:
  "mail_subject (compose w body reply)
     = (case subject body of Some s \<Rightarrow> ''Re: '' @ s | None \<Rightarrow> ''Re: undefined'')
   \<and> (\<forall>d env. Send_call d env \<in> set (snd (incoming_email w body))
         \<longrightarrow> mail_subject env
               = (case subject body of Some s \<Rightarrow> ''Re: '' @ s | None \<Rightarrow> ''Re: undefined''))"
proof (intro conjI allI impI)
  show c: "mail_subject (compose w body reply)
     = (case subject body of Some s \<Rightarrow> ''Re: '' @ s | None \<Rightarrow> ''Re: undefined'')" for reply
    by (simp add: compose_def split: option.splits)
  fix d env
  assume "Send_call d env \<in> set (snd (incoming_email w body))"
  then have "Send_call d env \<in> set (snd (try_block w body))"
    by (simp add: incoming_email_trace)
  from send_in_trace [OF this] obtain r where "env = compose w body r" by blast
  with c [of r] show "mail_subject env
     = (case subject body of Some s \<Rightarrow> ''Re: '' @ s | None \<Rightarrow> ''Re: undefined'')" by simp
qed

theorem reply_subject_witness:
  "subject scenario_A = Some ''Re: Hi''
   \<and> Send_call ''mg.example'' scenario_A_reply \<in> set (snd (incoming_email example_world scenario_A))
   \<and> mail_subject (compose example_world scenario_A ''Four.'') = ''Re: Re: Hi''
   \<and> mail_subject scenario_A_reply = ''Re: Re: Hi''
   \<and> subject no_subject_body = None
   \<and> Send_call ''mg.example'' no_subject_reply
        \<in> set (snd (incoming_email example_world no_subject_body))
   \<and> mail_subject no_subject_reply = ''Re: undefined''"
proof -
  have s: "subject scenario_A = Some ''Re: Hi''" by (simp add: scenario_A_def)
  have m: "Send_call ''mg.example'' scenario_A_reply
             \<in> set (snd (incoming_email example_world scenario_A))"
    by (simp add: scenario_A_run)
  have s': "subject no_subject_body = None" by (simp add: no_subject_body_def)
  have m': "Send_call ''mg.example'' no_subject_reply
             \<in> set (snd (incoming_email example_world no_subject_body))"
    by (simp add: no_subject_run)
  from reply_subject [of example_world scenario_A "''Four.''"]
       reply_subject [of example_world no_subject_body "''Four.''"] s m s' m'
  show ?thesis by simp
qed

subsection \<open>C6: the threading headers\<close>

text \<open>
  C6: in every envelope the handler hands to the mail provider, \<^verbatim>\<open>h:In-Reply-To\<close> and
  \<^verbatim>\<open>h:References\<close> are both the \<^verbatim>\<open>Message-Id\<close> of the email when it has one, and are
  both left \<^verbatim>\<open>undefined\<close> when it has none: no other value stands in for a missing id.
\<close>

theorem threading_headers:
  assumes "Send_call d env \<in> set (snd (incoming_email w body))"
  shows "case Message_Id body of
           Some m \<Rightarrow> h_In_Reply_To env = Some m \<and> h_References env = Some m
         | None \<Rightarrow> h_In_Reply_To env = None \<and> h_References env = None"
proof -
  from assms have "Send_call d env \<in> set (snd (try_block w body))"
    by (simp add: incoming_email_trace)
  from send_in_trace [OF this] obtain r where "env = compose w body r" by blast
  then show ?thesis by (simp add: compose_def split: option.splits)
qed

theorem threading_headers_witness:
  "Send_call ''mg.example'' scenario_A_reply \<in> set (snd (incoming_email example_world scenario_A))
   \<and> Message_Id scenario_A = Some ''<1@x.com>''
   \<and> h_In_Reply_To scenario_A_reply = Some ''<1@x.com>''
   \<and> h_References scenario_A_reply = Some ''<1@x.com>''
   \<and> Send_call ''mg.example'' scenario_A_no_id_reply
        \<in> set (snd (incoming_email example_world scenario_A_no_id))
   \<and> Message_Id scenario_A_no_id = None
   \<and> h_In_Reply_To scenario_A_no_id_reply = None
   \<and> h_References scenario_A_no_id_reply = None"
proof -
  have m: "Send_call ''mg.example'' scenario_A_reply
             \<in> set (snd (incoming_email example_world scenario_A))"
    by (simp add: scenario_A_run)
  have i: "Message_Id scenario_A = Some ''<1@x.com>''" by (simp add: scenario_A_def)
  have m': "Send_call ''mg.example'' scenario_A_no_id_reply
             \<in> set (snd (incoming_email example_world scenario_A_no_id))"
    by (simp add: scenario_A_no_id_run)
  have i': "Message_Id scenario_A_no_id = None" by (simp add: scenario_A_no_id_def)
  from threading_headers [OF m] threading_headers [OF m'] m i m' i' show ?thesis by simp
qed

subsection \<open>C7: the text of the first choice\<close>

text \<open>
  C7: take a run in which the completion provider was called and returned a completion.
  If the completion has no choice, or its first choice has no message, or that message has
  no content or an empty one, the handler answers with the error
  \<^verbatim>\<open>Failed to generate AI response\<close> and the mail provider is not called. If the first
  choice has a message with a non-empty content, the handler calls the mail provider with
  the envelope composed from that content, and the body of the envelope is this content,
  unchanged.
\<close>

theorem reply_extraction:
  assumes "parse_attachments w (attachments body) = Inr atts"
      and "check_content (stripped_text body) atts = Inr ()"
      and "build_userContent w (stripped_text body) atts = (Inr uc, tr0)"
      and "completions_create w tr0 (completion_request uc) = Inr c"
  shows "(choices c = []
          \<or> (\<exists>ch rest. choices c = ch # rest
                \<and> (message ch = None
                    \<or> (\<exists>m. message ch = Some m \<and> (content m = None \<or> content m = Some []))))
            \<longrightarrow> incoming_email w body =
                  (Json 500 ''error'' ''Failed to generate AI response'',
                   tr0 @ [Completion_call (completion_request uc)])
              \<and> (\<forall>d env. Send_call d env \<notin> set (snd (incoming_email w body))))
       \<and> (\<forall>ch rest m reply.
             choices c = ch # rest \<and> message ch = Some m \<and> content m = Some reply \<and> reply \<noteq> []
            \<longrightarrow> (\<exists>env. snd (incoming_email w body) =
                          tr0 @ [Completion_call (completion_request uc),
                                 Send_call (MAILGUN_DOMAIN w) env]
                      \<and> env = compose w body reply
                      \<and> mail_text env = reply))"
proof (intro conjI allI impI)
  assume "choices c = []
          \<or> (\<exists>ch rest. choices c = ch # rest
                \<and> (message ch = None
                    \<or> (\<exists>m. message ch = Some m \<and> (content m = None \<or> content m = Some []))))"
  then have none: "first_choice_content c = None \<or> first_choice_content c = Some []"
    by (auto simp: first_choice_content_def)
  with assms show run: "incoming_email w body =
      (Json 500 ''error'' ''Failed to generate AI response'',
       tr0 @ [Completion_call (completion_request uc)])"
    by (auto simp: incoming_email_def try_block_def Let_def generation_message_def)
  fix d env
  from build_userContent_trace [OF assms(3)] obtain us where "tr0 = map Fetch_call us" ..
  then show "Send_call d env \<notin> set (snd (incoming_email w body))"
    by (auto simp: run)
next
  fix ch rest m reply
  assume "choices c = ch # rest \<and> message ch = Some m \<and> content m = Some reply \<and> reply \<noteq> []"
  then have "first_choice_content c = Some reply" "reply \<noteq> []"
    by (simp_all add: first_choice_content_def)
  with assms have "snd (incoming_email w body) =
      tr0 @ [Completion_call (completion_request uc),
             Send_call (MAILGUN_DOMAIN w) (compose w body reply)]"
    by (simp add: incoming_email_trace try_block_def Let_def split: option.splits)
  moreover have "mail_text (compose w body reply) = reply" by (simp add: compose_def)
  ultimately show "\<exists>env. snd (incoming_email w body) =
                          tr0 @ [Completion_call (completion_request uc),
                                 Send_call (MAILGUN_DOMAIN w) env]
                      \<and> env = compose w body reply
                      \<and> mail_text env = reply" by simp
qed

theorem reply_extraction_witness:
  "completions_create silent_world [] (completion_request [Text ''What is 2+2?''])
     = Inr \<lparr>choices = []\<rparr>
   \<and> incoming_email silent_world scenario_A =
       (Json 500 ''error'' ''Failed to generate AI response'',
        [Completion_call (completion_request [Text ''What is 2+2?''])])
   \<and> completions_create example_world [] (completion_request [Text ''What is 2+2?''])
     = Inr \<lparr>choices = [\<lparr>message = Some \<lparr>content = Some ''Four.''\<rparr>\<rparr>]\<rparr>
   \<and> (\<exists>env. snd (incoming_email example_world scenario_A) =
              [Completion_call (completion_request [Text ''What is 2+2?'']),
               Send_call ''mg.example'' env]
            \<and> mail_text env = ''Four.'')"
proof -
  have p: "parse_attachments w (attachments scenario_A) = Inr (JArr [])" for w
    by (simp add: parse_attachments_def scenario_A_def)
  have k: "check_content (stripped_text scenario_A) (JArr []) = Inr ()"
    by (simp add: check_content_def scenario_A_def)
  have b: "build_userContent w (stripped_text scenario_A) (JArr [])
             = (Inr [Text ''What is 2+2?''], [])" for w
    by (simp add: build_userContent_def text_content_def scenario_A_def)
  have c1: "completions_create silent_world [] (completion_request [Text ''What is 2+2?''])
              = Inr \<lparr>choices = []\<rparr>"
    by (simp add: example_defs)
  have c2: "completions_create example_world [] (completion_request [Text ''What is 2+2?''])
              = Inr \<lparr>choices = [\<lparr>message = Some \<lparr>content = Some ''Four.''\<rparr>\<rparr>]\<rparr>"
    by (simp add: example_defs)
  have d: "MAILGUN_DOMAIN example_world = ''mg.example''" by (simp add: example_defs)
  from reply_extraction [OF p k b c1]
  have r1: "incoming_email silent_world scenario_A =
       (Json 500 ''error'' ''Failed to generate AI response'',
        [Completion_call (completion_request [Text ''What is 2+2?''])])" by simp
  from reply_extraction [OF p k b c2]
  have "\<forall>ch rest m reply.
          choices \<lparr>choices = [\<lparr>message = Some \<lparr>content = Some ''Four.''\<rparr>\<rparr>]\<rparr> = ch # rest
          \<and> message ch = Some m \<and> content m = Some reply \<and> reply \<noteq> []
          \<longrightarrow> (\<exists>env. snd (incoming_email example_world scenario_A) =
                       [] @ [Completion_call (completion_request [Text ''What is 2+2?'']),
                             Send_call (MAILGUN_DOMAIN example_world) env]
                   \<and> env = compose example_world scenario_A reply
                   \<and> mail_text env = reply)" by (rule conjunct2)
  then have "\<exists>env. snd (incoming_email example_world scenario_A) =
                       [] @ [Completion_call (completion_request [Text ''What is 2+2?'']),
                             Send_call (MAILGUN_DOMAIN example_world) env]
                   \<and> env = compose example_world scenario_A ''Four.''
                   \<and> mail_text env = ''Four.''"
    by simp
  with d have r2: "\<exists>env. snd (incoming_email example_world scenario_A) =
              [Completion_call (completion_request [Text ''What is 2+2?'']),
               Send_call ''mg.example'' env]
            \<and> mail_text env = ''Four.''" by auto
  from c1 r1 c2 r2 show ?thesis by blast
qed

subsection \<open>C8: a download that fails\<close>

text \<open>
  C8: let the attachments be \<open>pre @ a # post\<close>, let the loop have gone through \<open>pre\<close>
  without an error, let \<open>a\<close> be an image and let its fetch resolve with a response that is
  not \<^verbatim>\<open>ok\<close>. Then \<^verbatim>\<open>downloadAttachment\<close> throws, after this one fetch, the error with the
  message \<^verbatim>\<open>Failed to download attachment: \<close>, the status of the response in decimal
  digits, a space and the status text of the response; the handler answers 500 with that
  message; and the trace of the run is the fetches made for \<open>pre\<close> followed by the one
  fetch for \<open>a\<close>: the fetch is not tried again, nothing of \<open>post\<close> is fetched, and neither
  the completion provider nor the mail provider is called.
\<close>

theorem failed_download_aborts:
  assumes "parse_attachments w (attachments body) = Inr (JArr (pre @ a # post))"
      and "attachment_loop w pre (text_content (stripped_text body)) [] = (Inr uc, tr)"
      and "get_prop a ''content-type'' = Inr (JStr ct)"
      and "startsWith ct ''image/''"
      and "get_prop a ''url'' = Inr url"
      and "fetch w tr url = Inr response"
      and "\<not> ok response"
  shows "downloadAttachment w tr url
           = (Inl (Error (''Failed to download attachment: '' @ string_of_nat (status response)
                          @ '' '' @ statusText response)),
              tr @ [Fetch_call url])
       \<and> set (string_of_nat (status response)) \<subseteq> set ''0123456789''
       \<and> decimal_value (string_of_nat (status response)) = status response
       \<and> incoming_email w body
           = (Json 500 ''error''
                (''Failed to download attachment: '' @ string_of_nat (status response)
                 @ '' '' @ statusText response),
              tr @ [Fetch_call url])
       \<and> (\<exists>us. tr = map Fetch_call us)"
proof (intro conjI)
  let ?m = "''Failed to download attachment: '' @ string_of_nat (status response) @ '' ''
              @ statusText response"
  show d: "downloadAttachment w tr url = (Inl (Error ?m), tr @ [Fetch_call url])"
    using assms(6,7) by (simp add: downloadAttachment_def download_message_def)
  show "set (string_of_nat (status response)) \<subseteq> set ''0123456789''"
    by (rule string_of_nat_digits)
  show "decimal_value (string_of_nat (status response)) = status response"
    by (rule decimal_value_string_of_nat)
  have "attachment_loop w (a # post) uc tr = (Inl (Error ?m), tr @ [Fetch_call url])"
    using assms(3,4,5) d by simp
  with assms(2)
  have loop: "attachment_loop w (pre @ a # post) (text_content (stripped_text body)) []
          = (Inl (Error ?m), tr @ [Fetch_call url])"
    by (simp add: attachment_loop_append [of w pre])
  have "check_content (stripped_text body) (JArr (pre @ a # post)) = Inr ()"
    by (simp add: check_content_def)
  with assms(1) loop
  show "incoming_email w body = (Json 500 ''error'' ?m, tr @ [Fetch_call url])"
    by (simp add: incoming_email_def try_block_def build_userContent_def)
  from attachment_loop_trace [OF assms(2)] show "\<exists>us. tr = map Fetch_call us" by simp
qed

theorem failed_download_aborts_witness:
  "parse_attachments example_world (attachments three_images_body)
     = Inr (JArr ([cat_png] @ gone_png # [cat_png]))
   \<and> fetch example_world [Fetch_call (JStr ''https://files.example/cat.png'')]
        (JStr ''https://files.example/gone.png'') = Inr not_found
   \<and> \<not> ok not_found
   \<and> status not_found = 404
   \<and> decimal_value ''404'' = 404
   \<and> incoming_email example_world three_images_body
       = (Json 500 ''error'' ''Failed to download attachment: 404 Not Found'',
          [Fetch_call (JStr ''https://files.example/cat.png''),
           Fetch_call (JStr ''https://files.example/gone.png'')])"
proof -
  let ?tr = "[Fetch_call (JStr ''https://files.example/cat.png'')]"
  have p: "parse_attachments example_world (attachments three_images_body)
             = Inr (JArr ([cat_png] @ gone_png # [cat_png]))"
    by (simp add: parse_attachments_def three_images_body_def example_defs)
  have l: "attachment_loop example_world [cat_png] (text_content (stripped_text three_images_body)) []
             = (Inr [Text ''See attached'', Image_url ''data:image/png;base64,iVBO''], ?tr)"
    by (simp add: handler_defs example_defs three_images_body_def)
  have c: "get_prop gone_png ''content-type'' = Inr (JStr ''image/png'')"
    by (simp add: example_defs)
  have s: "startsWith ''image/png'' ''image/''" by (simp add: startsWith_def)
  have u: "get_prop gone_png ''url'' = Inr (JStr ''https://files.example/gone.png'')"
    by (simp add: example_defs)
  have f: "fetch example_world ?tr (JStr ''https://files.example/gone.png'') = Inr not_found"
    by (simp add: example_world_def example_fetch_def)
  have n: "\<not> ok not_found" by (simp add: not_found_def)
  have st: "status not_found = 404" "statusText not_found = ''Not Found''"
    by (simp_all add: not_found_def)
  have d: "string_of_nat 404 = ''404''" by (simp add: string_of_nat.simps)
  from failed_download_aborts [OF p l c s u f n] p f n st d show ?thesis by simp
qed

subsection \<open>C9: a payload without sender\<close>

text \<open>
  C9 as stated fails: the handler never looks at \<^verbatim>\<open>sender\<close> before it uses it as the
  recipient. An email with text and no sender passes the check, the completion provider is
  called, and the reply is handed to the mail provider with \<^verbatim>\<open>to\<close> undefined.
\<close>

theorem absent_sender_not_rejected:
  "sender no_sender_body = None
   \<and> incoming_email example_world no_sender_body =
       (Json 200 ''success'' ''Response sent successfully'',
        [Completion_call (completion_request [Text ''What is 2+2?'']),
         Send_call ''mg.example''
           \<lparr>mail_from = ''bot@mg.example'', mail_to = None, mail_subject = ''Re: Hi'',
            mail_text = ''Four.'', h_In_Reply_To = Some ''<4@x.com>'',
            h_References = Some ''<4@x.com>''\<rparr>])
   \<and> fst (incoming_email example_world no_sender_body)
       \<noteq> Json 500 ''error'' ''No email content or attachments found''"
  by (simp add: handler_defs example_defs no_sender_body_def)

text \<open>
  C9, amended: whatever the sender field holds, present or absent, the \<^verbatim>\<open>try\<close> block
  throws the error \<^verbatim>\<open>No email content or attachments found\<close> before any external call
  exactly when the text is absent or empty and the decoded attachments have length 0. The
  sender is not among the conditions.
\<close>

theorem validation_ignores_sender:
  "try_block w (body\<lparr>sender := s\<rparr>) = (Inl (Error no_content_message), [])
   \<longleftrightarrow> \<not> truthy_field (stripped_text body)
       \<and> (\<exists>atts. parse_attachments w (attachments body) = Inr atts
                \<and> get_prop atts ''length'' = Inr (JNum 0))"
  (is "?run = ?throw \<longleftrightarrow> ?none")
proof
  assume ?none
  then show "?run = ?throw"
    by (auto simp: try_block_def check_content_def)
next
  assume run: "?run = ?throw"
  let ?b = "body\<lparr>sender := s\<rparr>"
  from run show ?none
  proof (cases rule: try_block_cases)
    case (parse e)
    with parse_attachments_throws [OF parse(1)] show ?thesis by auto
  next
    case (check atts e)
    then have "check_content (stripped_text body) atts = Inl (Error no_content_message)" by simp
    with check(1) show ?thesis by (auto simp: check_content_no_content)
  next
    case (build atts e)
    with build_userContent_throws [of w "stripped_text ?b" atts e] show ?thesis by auto
  qed simp_all
qed

theorem validation_ignores_sender_witness:
  "try_block example_world (empty_body\<lparr>sender := None\<rparr>) = (Inl (Error no_content_message), [])
   \<and> try_block example_world (empty_body\<lparr>sender := Some ''a@x.com''\<rparr>)
       = (Inl (Error no_content_message), [])
   \<and> \<not> truthy_field (stripped_text empty_body)
   \<and> parse_attachments example_world (attachments empty_body) = Inr (JArr [])
   \<and> get_prop (JArr []) ''length'' = Inr (JNum 0)"
proof -
  have t: "\<not> truthy_field (stripped_text empty_body)" by (simp add: empty_body_def)
  have p: "parse_attachments example_world (attachments empty_body) = Inr (JArr [])"
    by (simp add: parse_attachments_def empty_body_def)
  have l: "get_prop (JArr []) ''length'' = Inr (JNum 0)" by simp
  from t p l have "\<not> truthy_field (stripped_text empty_body)
       \<and> (\<exists>atts. parse_attachments example_world (attachments empty_body) = Inr atts
                \<and> get_prop atts ''length'' = Inr (JNum 0))" by blast
  with validation_ignores_sender [where w = example_world and body = empty_body] t p l
  show ?thesis by blast
qed

subsection \<open>C10: an attachments field that is not a string\<close>

text \<open>
  C10: when the \<^verbatim>\<open>attachments\<close> field of the body is anything but a string (an array that
  the body parser has already decoded, for one), the handler takes the list of attachments
  to be empty. The run is the run of the same body without the field: nothing is fetched,
  and the user content of the completion request is what the text alone gives, without any
  image part.
\<close>

theorem non_string_attachments_discarded:
  assumes "typeof v \<noteq> ''string''"
  shows "parse_attachments w v = Inr (JArr [])
       \<and> incoming_email w (body\<lparr>attachments := v\<rparr>)
           = incoming_email w (body\<lparr>attachments := JUndefined\<rparr>)
       \<and> (\<forall>ev \<in> set (snd (incoming_email w (body\<lparr>attachments := v\<rparr>))).
            case ev of
              Fetch_call url \<Rightarrow> False
            | Completion_call req \<Rightarrow> req = completion_request (text_content (stripped_text body))
            | Send_call d env \<Rightarrow> True)"
proof (intro conjI ballI)
  show p: "parse_attachments w v = Inr (JArr [])"
    using assms by (simp add: parse_attachments_def)
  have q: "parse_attachments w JUndefined = Inr (JArr [])"
    by (simp add: parse_attachments_def)
  have c: "compose w (body\<lparr>attachments := a\<rparr>) reply = compose w body reply" for a reply
    by (simp add: compose_def)
  have "try_block w (body\<lparr>attachments := v\<rparr>) = try_block w (body\<lparr>attachments := JUndefined\<rparr>)"
    unfolding try_block_def c by (simp add: p q)
  then show "incoming_email w (body\<lparr>attachments := v\<rparr>)
               = incoming_email w (body\<lparr>attachments := JUndefined\<rparr>)"
    by (simp add: incoming_email_def)
next
  fix ev
  let ?b = "body\<lparr>attachments := v\<rparr>"
  have p: "parse_attachments w (attachments ?b) = Inr (JArr [])"
    using assms by (simp add: parse_attachments_def)
  obtain r tr where run: "try_block w ?b = (r, tr)" by force
  assume "ev \<in> set (snd (incoming_email w ?b))"
  with run have ev: "ev \<in> set tr" by (simp add: incoming_email_trace)
  from run show "case ev of
              Fetch_call url \<Rightarrow> False
            | Completion_call req \<Rightarrow> req = completion_request (text_content (stripped_text body))
            | Send_call d env \<Rightarrow> True"
    using ev p by (cases rule: try_block_cases) (auto simp: build_userContent_no_attachments)
qed

theorem non_string_attachments_discarded_witness:
  "typeof (JArr [cat_png]) \<noteq> ''string''
   \<and> parse_attachments example_world (JArr [cat_png]) = Inr (JArr [])
   \<and> incoming_email example_world (scenario_A\<lparr>attachments := JArr [cat_png]\<rparr>)
       = incoming_email example_world (scenario_A\<lparr>attachments := JUndefined\<rparr>)
   \<and> snd (incoming_email example_world (scenario_A\<lparr>attachments := JArr [cat_png]\<rparr>))
       = [Completion_call (completion_request [Text ''What is 2+2?'']),
          Send_call ''mg.example'' scenario_A_reply]"
proof -
  have t: "typeof (JArr [cat_png]) \<noteq> ''string''" by simp
  have "scenario_A\<lparr>attachments := JUndefined\<rparr> = scenario_A" by (simp add: scenario_A_def)
  with non_string_attachments_discarded [OF t, of example_world scenario_A] t
  show ?thesis by (simp add: scenario_A_run)
qed

end
